theory Spec2Isabelle
  imports Complex_Main
begin

section \<open>Data model\<close>

text \<open>
  The generator of the password application: the charset registry, the strength
  evaluator, the sampling routine and the history kept by the component's state.
  JavaScript numbers that hold lengths and indices are integers here;
  \<open>Math.random()\<close> and the clock readings are real numbers. The entropy estimate
  is modelled twice: \<open>evaluateStrength\<close> takes \<open>Math.log2\<close> and the product in exact
  real arithmetic, \<open>evaluateStrength_with\<close> takes both operations as parameters, so
  that the rounding of double arithmetic can be put in.
\<close>

record options =
  upper :: bool
  lower :: bool
  numbers :: bool
  symbols :: bool

record historyItem =
  item_id :: string
  item_password :: string
  item_strength :: string
  item_timestamp :: string
  item_responseTime :: real

record generated =
  password :: string
  strength :: string
  responseTime :: real

definition CHARSETS_upper :: string where
  "CHARSETS_upper = ''ABCDEFGHIJKLMNOPQRSTUVWXYZ''"

definition CHARSETS_lower :: string where
  "CHARSETS_lower = ''abcdefghijklmnopqrstuvwxyz''"

definition CHARSETS_numbers :: string where
  "CHARSETS_numbers = ''0123456789''"

definition CHARSETS_symbols :: string where
  "CHARSETS_symbols = ''!@#$%^&*()_+-=[]{}<>?''"

section \<open>Strength evaluator\<close>

text \<open>
  \<open>entropy\<close> is the local constant of \<open>evaluateStrength\<close>. For a pool size of 0 the
  source computes \<open>Math.log2(0) = -Infinity\<close>: the product is \<open>-Infinity\<close> for a
  non-empty password (below 40) and \<open>NaN\<close> for the empty one (both comparisons are
  false, so the last branch is taken).
\<close>

definition entropy :: "string \<Rightarrow> nat \<Rightarrow> real" where
  "entropy pw poolSize = real (length pw) * log 2 (real poolSize)"

definition evaluateStrength :: "string \<Rightarrow> nat \<Rightarrow> string" where
  "evaluateStrength pw poolSize =
     (if poolSize = 0 then (if length pw = 0 then ''Strong'' else ''Weak'')
      else if entropy pw poolSize < 40 then ''Weak''
      else if entropy pw poolSize < 60 then ''Medium''
      else ''Strong'')"

section \<open>Double arithmetic\<close>









section \<open>Password generator\<close>

text \<open>
  What one invocation reads from its surroundings: \<open>random k\<close> is the value of the
  \<open>k\<close>-th call of \<open>Math.random()\<close>, \<open>perf_start\<close> and \<open>perf_end\<close> are the two
  readings of \<open>performance.now()\<close>, \<open>date_now\<close> is \<open>Date.now()\<close> and
  \<open>locale_time\<close> is \<open>new Date().toLocaleTimeString()\<close>.
\<close>

record env =
  random :: "nat \<Rightarrow> real"
  perf_start :: real
  perf_end :: real
  date_now :: int
  locale_time :: string

text \<open>
  \<open>pool[k]\<close>: a one-character string inside the string, \<open>undefined\<close> outside, which
  \<open>+=\<close> appends as the text \<open>undefined\<close>.
\<close>

definition char_at :: "string \<Rightarrow> int \<Rightarrow> string" where
  "char_at s k = (if 0 \<le> k \<and> k < int (length s) then [s ! nat k] else ''undefined'')"

text \<open>Lines 36 to 41: the pool grows by one charset for each enabled option.\<close>

definition build_pool :: "options \<Rightarrow> string" where
  "build_pool opts =
     (let pool = [];
          pool = (if upper opts then pool @ CHARSETS_upper else pool);
          pool = (if lower opts then pool @ CHARSETS_lower else pool);
          pool = (if numbers opts then pool @ CHARSETS_numbers else pool);
          pool = (if symbols opts then pool @ CHARSETS_symbols else pool)
      in pool)"

text \<open>The \<open>for\<close> loop of lines 48 to 50, with its counter \<open>i\<close> and accumulator.\<close>

function sample_loop :: "(nat \<Rightarrow> real) \<Rightarrow> string \<Rightarrow> int \<Rightarrow> int \<Rightarrow> string \<Rightarrow> string" where
  "sample_loop rnd pool len i result =
     (if i < len
      then sample_loop rnd pool len (i + 1)
             (result @ char_at pool \<lfloor>rnd (nat i) * real (length pool)\<rfloor>)
      else result)"
  by pat_completeness auto
termination
  by (relation "measure (\<lambda>(rnd, pool, len, i, result). nat (len - i))") auto

declare sample_loop.simps [simp del]

definition generatePasswordFromOptions :: "env \<Rightarrow> int \<Rightarrow> options \<Rightarrow> generated" where
  "generatePasswordFromOptions e len opts =
     (let startTime = perf_start e;
          pool = build_pool opts
      in if pool = [] then \<lparr>password = [], strength = [], responseTime = 0\<rparr>
         else
           let result = sample_loop (random e) pool len 0 [];
               endTime = perf_end e;
               rt = endTime - startTime
           in \<lparr>password = result,
               strength = evaluateStrength result (length pool),
               responseTime = rt\<rparr>)"


text \<open>The contract of \<open>Math.random()\<close>: every value lies in \<open>[0, 1)\<close>.\<close>

definition random_in_unit :: "(nat \<Rightarrow> real) \<Rightarrow> bool" where
  "random_in_unit rnd = (\<forall>k. 0 \<le> rnd k \<and> rnd k < 1)"

section \<open>Component state and history\<close>

record app_state =
  st_length :: int
  st_options :: options
  st_password :: string
  st_strength :: string
  st_copied :: bool
  st_history :: "historyItem list"
  st_showHistory :: bool

datatype option_key = Upper | Lower | Numbers | Symbols

fun get_option :: "options \<Rightarrow> option_key \<Rightarrow> bool" where
  "get_option opts Upper = upper opts"
| "get_option opts Lower = lower opts"
| "get_option opts Numbers = numbers opts"
| "get_option opts Symbols = symbols opts"

fun set_option :: "options \<Rightarrow> option_key \<Rightarrow> bool \<Rightarrow> options" where
  "set_option opts Upper b = opts\<lparr>upper := b\<rparr>"
| "set_option opts Lower b = opts\<lparr>lower := b\<rparr>"
| "set_option opts Numbers b = opts\<lparr>numbers := b\<rparr>"
| "set_option opts Symbols b = opts\<lparr>symbols := b\<rparr>"

text \<open>Decimal text of an integer, as \<open>toString()\<close> gives it.\<close>

fun nat_toString :: "nat \<Rightarrow> string" where
  "nat_toString n =
     (if n < 10 then [''0123456789'' ! n]
      else nat_toString (n div 10) @ [''0123456789'' ! (n mod 10)])"

declare nat_toString.simps [simp del]

definition int_toString :: "int \<Rightarrow> string" where
  "int_toString k =
     (if k < 0 then CHR ''-'' # nat_toString (nat (- k)) else nat_toString (nat k))"

text \<open>\<open>Math.round\<close> rounds to the nearest integer, a tie towards plus infinity.\<close>

definition math_round :: "real \<Rightarrow> real" where
  "math_round x = real_of_int \<lfloor>x + 1 / 2\<rfloor>"

definition new_item :: "env \<Rightarrow> string \<Rightarrow> string \<Rightarrow> real \<Rightarrow> historyItem" where
  "new_item e pwd str rt =
     \<lparr>item_id = int_toString (date_now e),
      item_password = pwd,
      item_strength = str,
      item_timestamp = locale_time e,
      item_responseTime = math_round (rt * 100) / 100\<rparr>"

definition addToHistory :: "env \<Rightarrow> string \<Rightarrow> string \<Rightarrow> real \<Rightarrow> app_state \<Rightarrow> app_state" where
  "addToHistory e pwd str rt s =
     (let newItem = new_item e pwd str rt
      in s\<lparr>st_history := take 20 (newItem # st_history s)\<rparr>)"

definition generatePassword :: "env \<Rightarrow> app_state \<Rightarrow> app_state" where
  "generatePassword e s =
     (let r = generatePasswordFromOptions e (st_length s) (st_options s);
          s = s\<lparr>st_password := password r\<rparr>;
          s = s\<lparr>st_strength := strength r\<rparr>
      in addToHistory e (password r) (strength r) (responseTime r) s)"

definition toggleOption :: "env \<Rightarrow> option_key \<Rightarrow> app_state \<Rightarrow> app_state" where
  "toggleOption e key s =
     (let newOptions = set_option (st_options s) key (\<not> get_option (st_options s) key);
          s = s\<lparr>st_options := newOptions\<rparr>;
          r = generatePasswordFromOptions e (st_length s) newOptions;
          s = s\<lparr>st_password := password r\<rparr>;
          s = s\<lparr>st_strength := strength r\<rparr>
      in addToHistory e (password r) (strength r) (responseTime r) s)"

definition handleLengthChange :: "env \<Rightarrow> int \<Rightarrow> app_state \<Rightarrow> app_state" where
  "handleLengthChange e newLength s =
     (let s = s\<lparr>st_length := newLength\<rparr>;
          r = generatePasswordFromOptions e newLength (st_options s);
          s = s\<lparr>st_password := password r\<rparr>;
          s = s\<lparr>st_strength := strength r\<rparr>
      in addToHistory e (password r) (strength r) (responseTime r) s)"

definition clearHistory :: "app_state \<Rightarrow> app_state" where
  "clearHistory s = s\<lparr>st_history := []\<rparr>"

text \<open>The state the component starts in, before the effect that runs on mount.\<close>

definition initial_state :: app_state where
  "initial_state =
     \<lparr>st_length = 12,
      st_options = \<lparr>upper = True, lower = True, numbers = True, symbols = False\<rparr>,
      st_password = [], st_strength = [], st_copied = False,
      st_history = [], st_showHistory = False\<rparr>"

section \<open>Fixed inputs for the examples\<close>

text \<open>
  A deterministic stand-in for \<open>Math.random()\<close> that walks through
  \<open>0, 1/4, 1/2, 3/4\<close>, an environment built on it, and three option settings:
  nothing enabled, the component's initial setting, and digits only.
\<close>

definition stub_random :: "nat \<Rightarrow> real" where
  "stub_random k = real (k mod 4) / 4"

definition stub_env :: env where
  "stub_env =
     \<lparr>random = stub_random, perf_start = 3, perf_end = 4, date_now = 1042,
      locale_time = ''10:15:00''\<rparr>"

definition options_none :: options where
  "options_none = \<lparr>upper = False, lower = False, numbers = False, symbols = False\<rparr>"

definition options_default :: options where
  "options_default = \<lparr>upper = True, lower = True, numbers = True, symbols = False\<rparr>"

definition options_digits :: options where
  "options_digits = \<lparr>upper = False, lower = False, numbers = True, symbols = False\<rparr>"

section \<open>Auxiliary facts\<close>

subsection \<open>Entropy against powers of two\<close>

text \<open>
  Comparing \<open>L * log2 n\<close> with a natural number \<open>k\<close> is comparing \<open>n ^ L\<close> with
  \<open>2 ^ k\<close>; this turns the thresholds into integer arithmetic on concrete inputs.
\<close>

lemma entropy_less_iff:
  assumes "0 < n"
  shows "entropy pw n < real k \<longleftrightarrow> n ^ length pw < 2 ^ k"
proof -
  have pos: "0 < real n ^ length pw" using assms by simp
  have "entropy pw n = log 2 (real n ^ length pw)"
    using assms by (simp add: entropy_def log_nat_power)
  also have "\<dots> < real k \<longleftrightarrow> real n ^ length pw < 2 powr real k"
    using pos by (simp add: log_less_iff)
  also have "\<dots> \<longleftrightarrow> real (n ^ length pw) < real (2 ^ k)"
    by (simp add: powr_realpow)
  also have "\<dots> \<longleftrightarrow> n ^ length pw < 2 ^ k"
    by (rule of_nat_less_iff)
  finally show ?thesis .
qed

lemma less_entropy_iff:
  assumes "0 < n"
  shows "real k < real L * log 2 (real n) \<longleftrightarrow> 2 ^ k < n ^ L"
proof -
  have pos: "0 < real n ^ L" using assms by simp
  have "real L * log 2 (real n) = log 2 (real n ^ L)"
    using assms by (simp add: log_nat_power)
  also have "real k < \<dots> \<longleftrightarrow> 2 powr real k < real n ^ L"
    using pos by (simp add: less_log_iff)
  also have "\<dots> \<longleftrightarrow> real (2 ^ k) < real (n ^ L)"
    by (simp add: powr_realpow)
  also have "\<dots> \<longleftrightarrow> 2 ^ k < n ^ L"
    by (rule of_nat_less_iff)
  finally show ?thesis .
qed

lemma entropy_62_bounds: "71.4 < 12 * log 2 (62::real)" "12 * log 2 (62::real) < 71.5"
proof -
  have "real 714 < real 120 * log 2 (real 62)"
    by (subst less_entropy_iff) simp_all
  then show "71.4 < 12 * log 2 (62::real)" by simp
  have "entropy (replicate 120 CHR ''a'') 62 < real 715"
    by (subst entropy_less_iff) simp_all
  then show "12 * log 2 (62::real) < 71.5" by (simp add: entropy_def)
qed

lemma entropy_10_bounds: "13.2 < 4 * log 2 (10::real)" "4 * log 2 (10::real) < 13.3"
proof -
  have "real 132 < real 40 * log 2 (real 10)"
    by (subst less_entropy_iff) simp_all
  then show "13.2 < 4 * log 2 (10::real)" by simp
  have "entropy (replicate 40 CHR ''a'') 10 < real 133"
    by (subst entropy_less_iff) simp_all
  then show "4 * log 2 (10::real) < 13.3" by (simp add: entropy_def)
qed



lemma evaluateStrength_labels:
  "evaluateStrength pw n = ''Weak'' \<or> evaluateStrength pw n = ''Medium''
   \<or> evaluateStrength pw n = ''Strong''"
  by (simp add: evaluateStrength_def)

subsection \<open>Rounding to doubles\<close>






subsection \<open>Entropies of the pools up to 83 stay away from the thresholds\<close>









subsection \<open>Double arithmetic and exact arithmetic give the same label up to 83\<close>










subsection \<open>The pool\<close>

lemma build_pool_append:
  "build_pool opts =
     (if upper opts then CHARSETS_upper else []) @ (if lower opts then CHARSETS_lower else []) @
     (if numbers opts then CHARSETS_numbers else []) @ (if symbols opts then CHARSETS_symbols else [])"
  by (simp add: build_pool_def)

lemma build_pool_empty_iff:
  "build_pool opts = [] \<longleftrightarrow>
     \<not> upper opts \<and> \<not> lower opts \<and> \<not> numbers opts \<and> \<not> symbols opts"
  by (simp add: build_pool_append CHARSETS_upper_def CHARSETS_lower_def CHARSETS_numbers_def
      CHARSETS_symbols_def)

lemma length_build_pool:
  "length (build_pool opts) =
     (if upper opts then 26 else 0) + (if lower opts then 26 else 0) +
     (if numbers opts then 10 else 0) + (if symbols opts then 21 else 0)"
  by (simp add: build_pool_append CHARSETS_upper_def CHARSETS_lower_def CHARSETS_numbers_def
      CHARSETS_symbols_def)

subsection \<open>The sampling loop\<close>

lemma char_at_in_pool:
  assumes "0 \<le> r" "r < 1" "pool \<noteq> []"
  shows "\<exists>c. char_at pool \<lfloor>r * real (length pool)\<rfloor> = [c] \<and> c \<in> set pool"
proof -
  let ?n = "length pool"
  have n: "0 < real ?n" using assms(3) by simp
  have lo: "0 \<le> \<lfloor>r * real ?n\<rfloor>" using assms(1) by simp
  have "r * real ?n < real ?n" using assms(2) n by simp
  then have hi: "\<lfloor>r * real ?n\<rfloor> < int ?n" by (simp add: floor_less_iff)
  then have "nat \<lfloor>r * real ?n\<rfloor> < ?n" using lo by linarith
  then show ?thesis using lo hi by (simp add: char_at_def)
qed

lemma sample_loop_props:
  assumes "random_in_unit rnd" "pool \<noteq> []"
  shows "length (sample_loop rnd pool len i res) = length res + nat (len - i)
       \<and> set (sample_loop rnd pool len i res) \<subseteq> set res \<union> set pool"
  using assms
proof (induction rnd pool len i res rule: sample_loop.induct)
  case (1 rnd pool len i result)
  show ?case
  proof (cases "i < len")
    case True
    have "0 \<le> rnd (nat i)" "rnd (nat i) < 1"
      using "1.prems"(1) by (simp_all add: random_in_unit_def)
    then obtain c
      where c: "char_at pool \<lfloor>rnd (nat i) * real (length pool)\<rfloor> = [c]" "c \<in> set pool"
      using char_at_in_pool "1.prems"(2) by blast
    have step: "sample_loop rnd pool len i result =
                  sample_loop rnd pool len (i + 1) (result @ [c])"
      using True c(1) by (subst sample_loop.simps) simp
    have ih: "length (sample_loop rnd pool len (i + 1) (result @ [c])) =
                length (result @ [c]) + nat (len - (i + 1))
       \<and> set (sample_loop rnd pool len (i + 1) (result @ [c])) \<subseteq> set (result @ [c]) \<union> set pool"
      using "1.IH" [OF True] "1.prems" c(1) by simp
    have "nat (len - i) = Suc (nat (len - (i + 1)))" using True by linarith
    then show ?thesis using ih c(2) step by auto
  next
    case False
    then show ?thesis by (subst sample_loop.simps, subst (2) sample_loop.simps) simp
  qed
qed


lemma stub_random_in_unit: "random_in_unit stub_random"
  by (simp add: random_in_unit_def stub_random_def)

subsection \<open>The two outcomes of the generator\<close>

lemma generate_nonempty:
  assumes "build_pool opts \<noteq> []"
  shows "generatePasswordFromOptions e len opts =
     \<lparr>password = sample_loop (random e) (build_pool opts) len 0 [],
      strength = evaluateStrength (sample_loop (random e) (build_pool opts) len 0 [])
                   (length (build_pool opts)),
      responseTime = perf_end e - perf_start e\<rparr>"
  using assms by (simp add: generatePasswordFromOptions_def Let_def)

lemma generate_empty:
  assumes "build_pool opts = []"
  shows "generatePasswordFromOptions e len opts =
           \<lparr>password = [], strength = [], responseTime = 0\<rparr>"
  using assms by (simp add: generatePasswordFromOptions_def Let_def)

subsection \<open>History\<close>

lemma take_append_take: "take n (xs @ take n ys) = take n (xs @ ys)"
  by (simp add: min_def)

lemma st_history_addToHistory:
  "st_history (addToHistory e pwd str rt s) = take 20 (new_item e pwd str rt # st_history s)"
  by (simp add: addToHistory_def Let_def)

lemma generatePassword_fields:
  "st_history (generatePassword e s) =
     take 20 (new_item e (password (generatePasswordFromOptions e (st_length s) (st_options s)))
                (strength (generatePasswordFromOptions e (st_length s) (st_options s)))
                (responseTime (generatePasswordFromOptions e (st_length s) (st_options s)))
              # st_history s)"
  "st_length (generatePassword e s) = st_length s"
  "st_options (generatePassword e s) = st_options s"
  by (simp_all add: generatePassword_def addToHistory_def Let_def)

lemma toggleOption_history:
  "st_history (toggleOption e key s) =
     take 20 (new_item e
        (password (generatePasswordFromOptions e (st_length s)
           (set_option (st_options s) key (\<not> get_option (st_options s) key))))
        (strength (generatePasswordFromOptions e (st_length s)
           (set_option (st_options s) key (\<not> get_option (st_options s) key))))
        (responseTime (generatePasswordFromOptions e (st_length s)
           (set_option (st_options s) key (\<not> get_option (st_options s) key))))
      # st_history s)"
  by (simp add: toggleOption_def addToHistory_def Let_def)

lemma handleLengthChange_history:
  "st_history (handleLengthChange e newLength s) =
     take 20 (new_item e
        (password (generatePasswordFromOptions e newLength (st_options s)))
        (strength (generatePasswordFromOptions e newLength (st_options s)))
        (responseTime (generatePasswordFromOptions e newLength (st_options s)))
      # st_history s)"
  by (simp add: handleLengthChange_def addToHistory_def Let_def)

lemma new_item_empty:
  "new_item e [] [] 0 =
     \<lparr>item_id = int_toString (date_now e), item_password = [], item_strength = [],
      item_timestamp = locale_time e, item_responseTime = 0\<rparr>"
  by (simp add: new_item_def math_round_def)

text \<open>
  A run of generations from a state whose history respects the cap: the history is the
  items of the run, latest first, in front of the old history, cut at 20.
\<close>

lemma generations_history:
  "length (st_history s) \<le> 20 \<Longrightarrow>
   st_history (foldl (\<lambda>s e. generatePassword e s) s es) =
     take 20 (rev (map (\<lambda>e. new_item e
                (password (generatePasswordFromOptions e (st_length s) (st_options s)))
                (strength (generatePasswordFromOptions e (st_length s) (st_options s)))
                (responseTime (generatePasswordFromOptions e (st_length s) (st_options s)))) es)
              @ st_history s)"
proof (induction es arbitrary: s)
  case Nil
  then show ?case by simp
next
  case (Cons e es)
  let ?item = "\<lambda>e. new_item e
                (password (generatePasswordFromOptions e (st_length s) (st_options s)))
                (strength (generatePasswordFromOptions e (st_length s) (st_options s)))
                (responseTime (generatePasswordFromOptions e (st_length s) (st_options s)))"
  let ?s' = "generatePassword e s"
  have h: "st_history ?s' = take 20 (?item e # st_history s)"
    by (rule generatePassword_fields(1))
  have "length (st_history ?s') \<le> 20"
    unfolding h by simp
  from Cons.IH [OF this]
  have "st_history (foldl (\<lambda>s e. generatePassword e s) ?s' es) =
          take 20 (rev (map ?item es) @ st_history ?s')"
    by (simp only: generatePassword_fields(2,3))
  also have "\<dots> = take 20 (rev (map ?item es) @ ?item e # st_history s)"
    unfolding h by (rule take_append_take)
  finally show ?case by simp
qed

section \<open>Claims about the generator\<close>

text \<open>
  C1 (as amended): with all four options off, the generator does not fail. It returns an
  ordinary result whose password is empty, and the empty pool shows only inside that
  result: the strength is the empty string exactly when all four options are off.
\<close>

theorem generate_empty_pool_signalled:
  "(\<not> upper opts \<and> \<not> lower opts \<and> \<not> numbers opts \<and> \<not> symbols opts
      \<longrightarrow> password (generatePasswordFromOptions e len opts) = [])
   \<and> (strength (generatePasswordFromOptions e len opts) = []
      \<longleftrightarrow> \<not> upper opts \<and> \<not> lower opts \<and> \<not> numbers opts \<and> \<not> symbols opts)"
proof (cases "build_pool opts = []")
  case True
  then show ?thesis using build_pool_empty_iff [of opts] by (simp add: generate_empty)
next
  case False
  have "evaluateStrength pw n \<noteq> []" for pw n
    using evaluateStrength_labels [of pw n] by auto
  then show ?thesis
    using False build_pool_empty_iff [of opts] by (auto simp: generate_nonempty)
qed

text \<open>The amended C1 at the fixed environment, length 12 and no option enabled.\<close>

theorem generate_empty_pool_signalled_witness:
  "password (generatePasswordFromOptions stub_env 12 options_none) = []
   \<and> strength (generatePasswordFromOptions stub_env 12 options_none) = []"
  using generate_empty_pool_signalled [of options_none stub_env 12]
  by (simp add: options_none_def)

text \<open>
  C1 as stated fails: with no option enabled the call returns a result record, the one
  with the empty password, instead of signalling an error.
\<close>

theorem generate_all_false_returns_result:
  "generatePasswordFromOptions stub_env 12 options_none =
     \<lparr>password = [], strength = [], responseTime = 0\<rparr>"
  by (simp add: generate_empty build_pool_empty_iff options_none_def)

text \<open>
  C2: when \<open>Math.random()\<close> keeps its contract, a length of at least 1 and at least one
  enabled option give a password of exactly that many characters, each of them in the
  pool and in the charset of an enabled option.
\<close>

theorem generate_length_and_pool:
  assumes "random_in_unit (random e)" and "1 \<le> len"
    and "upper opts \<or> lower opts \<or> numbers opts \<or> symbols opts"
  shows "int (length (password (generatePasswordFromOptions e len opts))) = len
       \<and> (\<forall>c \<in> set (password (generatePasswordFromOptions e len opts)).
            c \<in> set (build_pool opts)
            \<and> (upper opts \<and> c \<in> set CHARSETS_upper \<or> lower opts \<and> c \<in> set CHARSETS_lower
               \<or> numbers opts \<and> c \<in> set CHARSETS_numbers
               \<or> symbols opts \<and> c \<in> set CHARSETS_symbols))"
proof -
  have ne: "build_pool opts \<noteq> []" using assms(3) by (simp add: build_pool_empty_iff)
  let ?pw = "sample_loop (random e) (build_pool opts) len 0 []"
  have pw: "password (generatePasswordFromOptions e len opts) = ?pw"
    by (simp add: generate_nonempty [OF ne])
  have props: "length ?pw = nat len" "set ?pw \<subseteq> set (build_pool opts)"
    using sample_loop_props [OF assms(1) ne, of len 0 "[]"] by simp_all
  have len: "int (length ?pw) = len" using props(1) assms(2) by simp
  have mem: "upper opts \<and> c \<in> set CHARSETS_upper \<or> lower opts \<and> c \<in> set CHARSETS_lower
               \<or> numbers opts \<and> c \<in> set CHARSETS_numbers
               \<or> symbols opts \<and> c \<in> set CHARSETS_symbols"
    if "c \<in> set (build_pool opts)" for c
    using that by (auto simp: build_pool_append split: if_splits)
  show ?thesis unfolding pw using len props(2) mem by blast
qed

text \<open>C2 at length 3 with digits only: three characters, all of them digits.\<close>

theorem generate_length_and_pool_witness:
  "random_in_unit (random stub_env) \<and> (1::int) \<le> 3 \<and> numbers options_digits
   \<and> int (length (password (generatePasswordFromOptions stub_env 3 options_digits))) = 3
   \<and> set (password (generatePasswordFromOptions stub_env 3 options_digits))
       \<subseteq> set CHARSETS_numbers"
proof -
  have r: "random_in_unit (random stub_env)"
    using stub_random_in_unit by (simp add: stub_env_def)
  have n: "numbers options_digits" "\<not> upper options_digits" "\<not> lower options_digits"
    "\<not> symbols options_digits"
    by (simp_all add: options_digits_def)
  show ?thesis
    using r n generate_length_and_pool [of stub_env 3 options_digits] by auto
qed



section \<open>Claims about the strength evaluator\<close>




text \<open>
  C5: two passwords of the same length get the same label for the same pool size,
  whatever their characters are.
\<close>

theorem evaluateStrength_depends_on_length:
  "length pw1 = length pw2 \<Longrightarrow> evaluateStrength pw1 poolSize = evaluateStrength pw2 poolSize"
  by (simp add: evaluateStrength_def entropy_def)

text \<open>C5 on two four-character passwords over the full pool of 83 characters.\<close>

theorem evaluateStrength_depends_on_length_witness:
  "length ''aB3$'' = length ''zzzz'' \<and> evaluateStrength ''aB3$'' 83 = evaluateStrength ''zzzz'' 83"
  using evaluateStrength_depends_on_length [of "''aB3$''" "''zzzz''" 83] by simp

text \<open>
  C6: with a pool of size 1 the entropy estimate is \<open>length * log2 1 = 0\<close>, so every
  password, whatever its length, is labelled Weak.
\<close>

theorem evaluateStrength_pool_one: "evaluateStrength pw 1 = ''Weak''"
  by (simp add: evaluateStrength_def entropy_def)

text \<open>C6 on a password of a hundred characters.\<close>

theorem evaluateStrength_pool_one_witness:
  "evaluateStrength (replicate 100 CHR ''a'') 1 = ''Weak''"
  using evaluateStrength_pool_one [of "replicate 100 CHR ''a''"] by simp

text \<open>
  C8: the two worked examples. Length 12 with upper, lower and digits: pool size 62,
  entropy \<open>12 * log2 62\<close>, which lies between 71.4 and 71.5, label Strong. Length 4 with
  digits only: pool size 10, entropy \<open>4 * log2 10\<close>, which lies between 13.2 and 13.3,
  label Weak.
\<close>

theorem worked_examples:
  assumes "random_in_unit (random e)"
  shows "length (build_pool \<lparr>upper = True, lower = True, numbers = True, symbols = False\<rparr>) = 62
       \<and> entropy (password (generatePasswordFromOptions e 12
              \<lparr>upper = True, lower = True, numbers = True, symbols = False\<rparr>)) 62
           = 12 * log 2 62
       \<and> 71.4 < 12 * log 2 (62::real) \<and> 12 * log 2 (62::real) < 71.5
       \<and> strength (generatePasswordFromOptions e 12
              \<lparr>upper = True, lower = True, numbers = True, symbols = False\<rparr>) = ''Strong''
       \<and> length (build_pool \<lparr>upper = False, lower = False, numbers = True, symbols = False\<rparr>) = 10
       \<and> entropy (password (generatePasswordFromOptions e 4
              \<lparr>upper = False, lower = False, numbers = True, symbols = False\<rparr>)) 10
           = 4 * log 2 10
       \<and> 13.2 < 4 * log 2 (10::real) \<and> 4 * log 2 (10::real) < 13.3
       \<and> strength (generatePasswordFromOptions e 4
              \<lparr>upper = False, lower = False, numbers = True, symbols = False\<rparr>) = ''Weak''"
proof -
  let ?o1 = "\<lparr>upper = True, lower = True, numbers = True, symbols = False\<rparr>"
  let ?o2 = "\<lparr>upper = False, lower = False, numbers = True, symbols = False\<rparr>"
  let ?p1 = "sample_loop (random e) (build_pool ?o1) 12 0 []"
  let ?p2 = "sample_loop (random e) (build_pool ?o2) 4 0 []"
  have n1: "length (build_pool ?o1) = 62" and n2: "length (build_pool ?o2) = 10"
    by (simp_all add: length_build_pool)
  have ne1: "build_pool ?o1 \<noteq> []" and ne2: "build_pool ?o2 \<noteq> []"
    by (simp_all add: build_pool_empty_iff)
  have l1: "length ?p1 = 12"
    using sample_loop_props [OF assms ne1, of 12 0 "[]"] by simp
  have l2: "length ?p2 = 4"
    using sample_loop_props [OF assms ne2, of 4 0 "[]"] by simp
  have g1: "password (generatePasswordFromOptions e 12 ?o1) = ?p1"
       "strength (generatePasswordFromOptions e 12 ?o1) = evaluateStrength ?p1 62"
    using n1 by (simp_all add: generate_nonempty [OF ne1])
  have g2: "password (generatePasswordFromOptions e 4 ?o2) = ?p2"
       "strength (generatePasswordFromOptions e 4 ?o2) = evaluateStrength ?p2 10"
    using n2 by (simp_all add: generate_nonempty [OF ne2])
  have e1: "entropy ?p1 62 = 12 * log 2 62" and e2: "entropy ?p2 10 = 4 * log 2 10"
    by (simp_all add: entropy_def l1 l2)
  have s1: "evaluateStrength ?p1 62 = ''Strong''"
    using entropy_62_bounds(1) by (simp add: evaluateStrength_def e1)
  have s2: "evaluateStrength ?p2 10 = ''Weak''"
    using entropy_10_bounds(2) by (simp add: evaluateStrength_def e2)
  show ?thesis
    unfolding g1 g2 using n1 n2 e1 e2 s1 s2 entropy_62_bounds entropy_10_bounds
    by simp
qed

text \<open>C8 at the fixed environment.\<close>

theorem worked_examples_witness:
  "random_in_unit (random stub_env)
   \<and> strength (generatePasswordFromOptions stub_env 12 options_default) = ''Strong''
   \<and> strength (generatePasswordFromOptions stub_env 4 options_digits) = ''Weak''"
proof -
  have r: "random_in_unit (random stub_env)"
    using stub_random_in_unit by (simp add: stub_env_def)
  show ?thesis
    using r worked_examples [of stub_env]
    by (simp add: options_default_def options_digits_def)
qed

text \<open>
  C9: with all four options off, the result's strength is the empty string, which is
  none of Weak, Medium and Strong, and its response time is 0.
\<close>

theorem generate_all_false_strength_empty:
  assumes "\<not> upper opts" "\<not> lower opts" "\<not> numbers opts" "\<not> symbols opts"
  shows "strength (generatePasswordFromOptions e len opts) = []
       \<and> strength (generatePasswordFromOptions e len opts) \<notin> {''Weak'', ''Medium'', ''Strong''}
       \<and> responseTime (generatePasswordFromOptions e len opts) = 0"
  using assms by (simp add: generate_empty build_pool_empty_iff)

text \<open>C9 at the fixed environment, whose two clock readings differ by 1.\<close>

theorem generate_all_false_strength_empty_witness:
  "\<not> upper options_none \<and> \<not> lower options_none \<and> \<not> numbers options_none
   \<and> \<not> symbols options_none
   \<and> perf_end stub_env - perf_start stub_env = 1
   \<and> strength (generatePasswordFromOptions stub_env 8 options_none) = []
   \<and> responseTime (generatePasswordFromOptions stub_env 8 options_none) = 0"
proof -
  have n: "\<not> upper options_none" "\<not> lower options_none" "\<not> numbers options_none"
    "\<not> symbols options_none"
    by (simp_all add: options_none_def)
  show ?thesis
    using n generate_all_false_strength_empty [OF n, of stub_env 8]
    by (simp add: stub_env_def)
qed

section \<open>Claims about the history\<close>

text \<open>
  C7: adding an item to a history \<open>h\<close> gives the new item in front of \<open>h\<close>, cut to the
  first 20 elements, so at most 20 items are kept. After 21 generations from an empty
  history there are exactly 20 items: those of the last 20 generations, the latest
  first; the item of the first generation is gone.
\<close>

theorem history_capped_newest_first:
  "st_history (addToHistory e pwd str rt s) = take 20 (new_item e pwd str rt # st_history s)
   \<and> length (st_history (addToHistory e pwd str rt s)) \<le> 20
   \<and> (length es = 21 \<and> st_history s = [] \<longrightarrow>
        length (st_history (foldl (\<lambda>s e. generatePassword e s) s es)) = 20
        \<and> st_history (foldl (\<lambda>s e. generatePassword e s) s es) =
            rev (map (\<lambda>e. new_item e
                (password (generatePasswordFromOptions e (st_length s) (st_options s)))
                (strength (generatePasswordFromOptions e (st_length s) (st_options s)))
                (responseTime (generatePasswordFromOptions e (st_length s) (st_options s))))
              (tl es)))"
proof -
  have run: "length (st_history (foldl (\<lambda>s e. generatePassword e s) s es)) = 20
        \<and> st_history (foldl (\<lambda>s e. generatePassword e s) s es) =
            rev (map (\<lambda>e. new_item e
                (password (generatePasswordFromOptions e (st_length s) (st_options s)))
                (strength (generatePasswordFromOptions e (st_length s) (st_options s)))
                (responseTime (generatePasswordFromOptions e (st_length s) (st_options s))))
              (tl es))"
    if len: "length es = 21" and emp: "st_history s = []"
  proof -
    obtain x xs where es: "es = x # xs" and xs: "length xs = 20"
      using len by (cases es) simp_all
    show ?thesis
      using generations_history [of s es] emp xs by (simp add: es)
  qed
  show ?thesis using run by (simp add: st_history_addToHistory)
qed

text \<open>
  C7 on 21 generations from the initial state, the \<open>k\<close>-th of them at time \<open>k\<close>: 20
  items remain, among which the one of time 0 is missing.
\<close>

theorem history_capped_newest_first_witness:
  "length (map (\<lambda>k. stub_env\<lparr>date_now := int k\<rparr>) [0..<21]) = 21
   \<and> st_history initial_state = []
   \<and> length (st_history (foldl (\<lambda>s e. generatePassword e s) initial_state
        (map (\<lambda>k. stub_env\<lparr>date_now := int k\<rparr>) [0..<21]))) = 20
   \<and> map item_id (st_history (foldl (\<lambda>s e. generatePassword e s) initial_state
        (map (\<lambda>k. stub_env\<lparr>date_now := int k\<rparr>) [0..<21]))) =
      rev (map (\<lambda>k. int_toString (int k)) [1..<21])"
proof -
  have h: "st_history initial_state = []"
    by (simp add: initial_state_def)
  have l: "length (map (\<lambda>k. stub_env\<lparr>date_now := int k\<rparr>) [0..<21]) = 21"
    by simp
  have t: "tl (map (\<lambda>k. stub_env\<lparr>date_now := int k\<rparr>) [0..<21]) =
             map (\<lambda>k. stub_env\<lparr>date_now := int k\<rparr>) [1..<21]"
    by (simp add: upt_conv_Cons)
  show ?thesis
    using h l history_capped_newest_first
      [of stub_env "[]" "[]" 0 initial_state "map (\<lambda>k. stub_env\<lparr>date_now := int k\<rparr>) [0..<21]"]
    unfolding t by (simp add: rev_map o_def new_item_def)
qed

text \<open>
  C10: each of \<open>generatePassword\<close>, \<open>toggleOption\<close> and \<open>handleLengthChange\<close> puts exactly
  one item, the one of the generation it runs, in front of the history (cut at 20). This
  also happens when the pool is empty: the item recorded then has the empty password, the
  empty strength and response time 0.
\<close>

theorem every_generation_appends_item:
  "st_history (generatePassword e s) =
     take 20 (new_item e
        (password (generatePasswordFromOptions e (st_length s) (st_options s)))
        (strength (generatePasswordFromOptions e (st_length s) (st_options s)))
        (responseTime (generatePasswordFromOptions e (st_length s) (st_options s)))
      # st_history s)
   \<and> st_history (toggleOption e key s) =
     take 20 (new_item e
        (password (generatePasswordFromOptions e (st_length s)
           (set_option (st_options s) key (\<not> get_option (st_options s) key))))
        (strength (generatePasswordFromOptions e (st_length s)
           (set_option (st_options s) key (\<not> get_option (st_options s) key))))
        (responseTime (generatePasswordFromOptions e (st_length s)
           (set_option (st_options s) key (\<not> get_option (st_options s) key))))
      # st_history s)
   \<and> st_history (handleLengthChange e newLength s) =
     take 20 (new_item e
        (password (generatePasswordFromOptions e newLength (st_options s)))
        (strength (generatePasswordFromOptions e newLength (st_options s)))
        (responseTime (generatePasswordFromOptions e newLength (st_options s)))
      # st_history s)
   \<and> length (st_history (generatePassword e s)) = min 20 (Suc (length (st_history s)))
   \<and> length (st_history (toggleOption e key s)) = min 20 (Suc (length (st_history s)))
   \<and> length (st_history (handleLengthChange e newLength s)) =
       min 20 (Suc (length (st_history s)))
   \<and> (build_pool (st_options s) = [] \<longrightarrow>
        st_history (generatePassword e s) =
          take 20 (\<lparr>item_id = int_toString (date_now e), item_password = [], item_strength = [],
                    item_timestamp = locale_time e, item_responseTime = 0\<rparr> # st_history s))
   \<and> (build_pool (set_option (st_options s) key (\<not> get_option (st_options s) key)) = [] \<longrightarrow>
        st_history (toggleOption e key s) =
          take 20 (\<lparr>item_id = int_toString (date_now e), item_password = [], item_strength = [],
                    item_timestamp = locale_time e, item_responseTime = 0\<rparr> # st_history s))"
  unfolding toggleOption_history handleLengthChange_history generatePassword_fields(1)
  by (auto simp: generate_empty new_item_empty min_def)

text \<open>
  C10 with no option enabled, and with the only enabled option toggled off: the history,
  empty before, holds the one item with the empty password and the empty strength.
\<close>

theorem every_generation_appends_item_witness:
  "st_history (generatePassword stub_env (initial_state\<lparr>st_options := options_none\<rparr>))
   = [\<lparr>item_id = ''1042'', item_password = [], item_strength = [],
       item_timestamp = ''10:15:00'', item_responseTime = 0\<rparr>]
   \<and> st_history (toggleOption stub_env Upper
        (initial_state\<lparr>st_options := options_none\<lparr>upper := True\<rparr>\<rparr>))
   = [\<lparr>item_id = ''1042'', item_password = [], item_strength = [],
       item_timestamp = ''10:15:00'', item_responseTime = 0\<rparr>]"
proof -
  let ?s1 = "initial_state\<lparr>st_options := options_none\<rparr>"
  let ?s2 = "initial_state\<lparr>st_options := options_none\<lparr>upper := True\<rparr>\<rparr>"
  have p1: "build_pool (st_options ?s1) = []"
    by (simp add: build_pool_empty_iff options_none_def)
  have p2: "build_pool (set_option (st_options ?s2) Upper (\<not> get_option (st_options ?s2) Upper)) = []"
    by (simp add: build_pool_empty_iff options_none_def)
  have id: "int_toString (date_now stub_env) = ''1042''"
    by (simp add: int_toString_def nat_toString.simps stub_env_def)
  have tm: "locale_time stub_env = ''10:15:00''"
    by (simp add: stub_env_def)
  have h: "st_history ?s1 = []" "st_history ?s2 = []"
    by (simp_all add: initial_state_def)
  have "st_history (generatePassword stub_env ?s1) =
          take 20 (\<lparr>item_id = int_toString (date_now stub_env), item_password = [],
                    item_strength = [], item_timestamp = locale_time stub_env,
                    item_responseTime = 0\<rparr> # st_history ?s1)"
    using every_generation_appends_item [of stub_env ?s1 Upper] p1 by blast
  moreover have "st_history (toggleOption stub_env Upper ?s2) =
          take 20 (\<lparr>item_id = int_toString (date_now stub_env), item_password = [],
                    item_strength = [], item_timestamp = locale_time stub_env,
                    item_responseTime = 0\<rparr> # st_history ?s2)"
    using every_generation_appends_item [of stub_env ?s2 Upper] p2 by blast
  ultimately show ?thesis
    unfolding h id tm by simp
qed

end
